theory Spec2Isabelle
  imports Complex_Main "HOL-Library.Word" "HOL-Library.Log_Nat"
begin

unbundle bit_operations_syntax

section \<open>The main interface context (\<open>MainCtx\<close>)\<close>

subsection \<open>Settings values\<close>

text \<open>
  The settings store hands out variants. The model keeps the three kinds of value that
  the destructor of \<open>MainCtx\<close> writes (booleans, doubles and integers, the latter also
  for the enumerations) and one constructor for every value that converts to none of
  them. The conversions follow the toolkit's documentation: a number is true when it is
  not zero, a value that cannot be converted gives the default-constructed result.
  A \<open>double\<close> is modelled by a real number: the code only stores and compares these
  values.
\<close>

datatype QVariant = QVBool bool | QVInt int | QVDouble real | QVInvalid

fun toBool :: "QVariant \<Rightarrow> bool" where
  "toBool (QVBool b) = b"
| "toBool (QVInt i) = (i \<noteq> 0)"
| "toBool (QVDouble d) = (d \<noteq> 0)"
| "toBool QVInvalid = False"

fun toDouble :: "QVariant \<Rightarrow> real" where
  "toDouble (QVBool b) = (if b then 1 else 0)"
| "toDouble (QVInt i) = of_int i"
| "toDouble (QVDouble d) = d"
| "toDouble QVInvalid = 0"

fun toInt :: "QVariant \<Rightarrow> int" where
  "toInt (QVBool b) = (if b then 1 else 0)"
| "toInt (QVInt i) = i"
| "toInt (QVDouble d) = round d"
| "toInt QVInvalid = 0"

type_synonym QSettings = "string \<rightharpoonup> QVariant"

text \<open>\<open>QSettings::value(key, defaultValue)\<close>: the stored value, or the default when the
  key is missing.\<close>

definition settings_value :: "QSettings \<Rightarrow> string \<Rightarrow> QVariant \<Rightarrow> QVariant" where
  "settings_value st key defaultValue =
     (case st key of None \<Rightarrow> defaultValue | Some v \<Rightarrow> v)"

subsection \<open>State and signals\<close>

text \<open>Modelled from the spec: the enumeration \<open>Grouping\<close> is declared in the header
  of \<open>MainCtx\<close>, which is not among the sources; the spec names its default
  \<open>NONE\<close>. The enumeration is kept as the integer that a variant stores.\<close>

type_synonym Grouping = int

definition GROUPING_NONE :: Grouping where
  "GROUPING_NONE = 0"

text \<open>Modelled from the spec: \<open>ColorSchemeModel\<close> is not among the sources; the spec
  names the default scheme \<open>SYSTEM\<close>. The model keeps the current scheme as the integer
  that a variant stores, and \<open>setCurrentScheme\<close> stores its argument.\<close>

type_synonym ColorScheme = int

definition ColorSchemeModel_System :: ColorScheme where
  "ColorSchemeModel_System = 0"

datatype signal =
    playlistDockedChanged bool
  | playlistVisibleChanged bool
  | playlistWidthFactorChanged real
  | gridViewChanged bool
  | groupingChanged Grouping
  | showRemainingTimeChanged bool
  | pinVideoControlsChanged bool
  | interfaceAlwaysOnTopChanged bool
  | intfScaleFactorChanged
  | hasAcrylicSurfaceChanged
  | acrylicActiveChanged
  | preferHotkeysChanged
  | hasEmbededVideoChanged bool

text \<open>The video surface provider, as far as the context looks at it: which object it is,
  and what its \<open>hasVideoEmbed\<close> answers.\<close>

record VideoSurfaceProvider =
  provider_id :: nat
  hasVideoEmbed :: bool

record MainCtx =
  b_playlistDocked :: bool
  playlistVisible :: bool
  playlistWidthFactor :: real
  m_gridView :: bool
  m_grouping :: Grouping
  m_showRemainingTime :: bool
  m_pinVideoControls :: bool
  m_colorScheme :: ColorScheme
  m_intfUserScaleFactor :: real
  m_intfScaleFactor :: real
  b_interfaceOnTop :: bool
  m_hasAcrylicSurface :: bool
  m_acrylicActive :: bool
  m_preferHotkeys :: bool
  m_videoSurfaceProvider :: "VideoSurfaceProvider option"
  hasVideoEmbedChanged_connected :: bool
  emitted :: "signal list"

text \<open>What the context reads from outside: the settings store, the inherited engine
  option \<open>qt-interface-scale\<close> (a \<open>float\<close>), the logical dots per inch of the screen
  of the interface window when there is one, and the two bounds of the user scale
  factor, which the header of \<open>MainCtx\<close> gives (\<open>getMinIntfUserScaleFactor\<close> and
  \<open>getMaxIntfUserScaleFactor\<close>; the header is not among the sources).\<close>

record intf_env =
  settings :: QSettings
  qt_interface_scale :: real
  screen_dpi :: "real option"
  minIntfUserScaleFactor :: real
  maxIntfUserScaleFactor :: real

text \<open>\<open>emit sig\<close>: every subscriber is notified; the model records the signal.\<close>

definition emit :: "signal \<Rightarrow> MainCtx \<Rightarrow> MainCtx" where
  "emit sg s = s\<lparr>emitted := emitted s @ [sg]\<rparr>"

subsection \<open>Setters\<close>



definition setPlaylistWidthFactor :: "real \<Rightarrow> MainCtx \<Rightarrow> MainCtx" where
  "setPlaylistWidthFactor factor s =
     (if factor > 0
      then emit (playlistWidthFactorChanged factor) (s\<lparr>playlistWidthFactor := factor\<rparr>)
      else s)"










subsection \<open>The interface scale factor\<close>

definition VLC_REFERENCE_SCALE_FACTOR :: real where
  "VLC_REFERENCE_SCALE_FACTOR = 96"

definition updateIntfScaleFactor :: "intf_env \<Rightarrow> MainCtx \<Rightarrow> MainCtx" where
  "updateIntfScaleFactor env s =
     (let s1 = s\<lparr>m_intfScaleFactor := m_intfUserScaleFactor s\<rparr>;
          s2 = (case screen_dpi env of
                  None \<Rightarrow> s1
                | Some dpi \<Rightarrow>
                    s1\<lparr>m_intfScaleFactor :=
                         m_intfUserScaleFactor s1 * dpi / VLC_REFERENCE_SCALE_FACTOR\<rparr>)
      in emit intfScaleFactorChanged s2)"



subsection \<open>Loading the settings\<close>

text \<open>
  In \<open>loadFromSettingsImpl\<close> the local \<open>userIntfScaleFactor\<close> is a \<open>float\<close>, as
  \<open>var_InheritFloat\<close> returns one: the stored \<open>double\<close> is converted to \<open>float\<close>
  before it is compared and assigned. \<open>float_of_double\<close> is that conversion as the
  usual platforms do it: the nearest value with a significand of 24 bits and an exponent
  of at least -126, a tie going to the even significand. (Beyond the largest \<open>float\<close>
  the conversion is not defined by the language; the function rounds there in the same
  way.)
\<close>

definition round_half_even :: "real \<Rightarrow> int" where
  "round_half_even y =
     (let r = \<lfloor>y\<rfloor>; f = y - of_int r
      in if f < 1 / 2 then r
         else if f > 1 / 2 then r + 1
         else if even r then r else r + 1)"

definition pow2 :: "int \<Rightarrow> real" where
  "pow2 e = (if e \<ge> 0 then 2 ^ nat e else 1 / 2 ^ nat (- e))"

text \<open>The exponent of the binade of \<open>x\<close>: the largest \<open>e\<close> with \<open>2 ^ e \<le> \<bar>x\<bar>\<close>, and
  -126 below the normal range.\<close>

definition float_exponent :: "real \<Rightarrow> int" where
  "float_exponent x =
     (let a = \<bar>x\<bar>
      in if a \<ge> 1 then bitlen \<lfloor>a\<rfloor> - 1
         else if a = 0 then - 126
         else max (- bitlen (\<lceil>1 / a\<rceil> - 1)) (- 126))"

definition float_of_double :: "real \<Rightarrow> real" where
  "float_of_double x =
     (let q = pow2 (float_exponent x - 23)
      in of_int (round_half_even (x / q)) * q)"

text \<open>
  The generic lambda \<open>loadFromSettings\<close> of \<open>loadFromSettingsImpl\<close>: \<open>conv\<close> is
  the conversion of the variant to the type of the variable, \<open>variable\<close> and \<open>assign\<close>
  read and write the variable, \<open>sg\<close> is the signal. The value is stored only when it differs, and
  the signal is sent only when \<open>callSignals\<close> is set.
\<close>

definition loadFromSettings ::
  "intf_env \<Rightarrow> bool \<Rightarrow> (QVariant \<Rightarrow> 'a) \<Rightarrow> (MainCtx \<Rightarrow> 'a) \<Rightarrow> ('a \<Rightarrow> MainCtx \<Rightarrow> MainCtx) \<Rightarrow>
   string \<Rightarrow> QVariant \<Rightarrow> ('a \<Rightarrow> signal) \<Rightarrow> MainCtx \<Rightarrow> MainCtx" where
  "loadFromSettings env callSignals conv variable assign name defaultValue sg s =
     (let v = conv (settings_value (settings env) name defaultValue)
      in if v = variable s then s
         else (let s1 = assign v s
               in if callSignals then emit (sg (variable s1)) s1 else s1))"

definition loadFromSettingsImpl :: "intf_env \<Rightarrow> bool \<Rightarrow> MainCtx \<Rightarrow> MainCtx" where
  "loadFromSettingsImpl env callSignals s =
     (let s1 = loadFromSettings env callSignals toBool b_playlistDocked
                 (\<lambda>v c. c\<lparr>b_playlistDocked := v\<rparr>)
                 ''MainWindow/pl-dock-status'' (QVBool True) playlistDockedChanged s;
          s2 = loadFromSettings env callSignals toBool playlistVisible
                 (\<lambda>v c. c\<lparr>playlistVisible := v\<rparr>)
                 ''MainWindow/playlist-visible'' (QVBool False) playlistVisibleChanged s1;
          s3 = loadFromSettings env callSignals toDouble playlistWidthFactor
                 (\<lambda>v c. c\<lparr>playlistWidthFactor := v\<rparr>)
                 ''MainWindow/playlist-width-factor'' (QVDouble 4) playlistWidthFactorChanged s2;
          s4 = loadFromSettings env callSignals toBool m_gridView
                 (\<lambda>v c. c\<lparr>m_gridView := v\<rparr>)
                 ''MainWindow/grid-view'' (QVBool True) gridViewChanged s3;
          s5 = loadFromSettings env callSignals toInt m_grouping
                 (\<lambda>v c. c\<lparr>m_grouping := v\<rparr>)
                 ''MainWindow/grouping'' (QVInt GROUPING_NONE) groupingChanged s4;
          s6 = loadFromSettings env callSignals toBool m_showRemainingTime
                 (\<lambda>v c. c\<lparr>m_showRemainingTime := v\<rparr>)
                 ''MainWindow/ShowRemainingTime'' (QVBool False) showRemainingTimeChanged s5;
          s7 = loadFromSettings env callSignals toBool m_pinVideoControls
                 (\<lambda>v c. c\<lparr>m_pinVideoControls := v\<rparr>)
                 ''MainWindow/pin-video-controls'' (QVBool False) pinVideoControlsChanged s6;
          colorScheme = toInt (settings_value (settings env) ''MainWindow/color-scheme''
                                 (QVInt ColorSchemeModel_System));
          s8 = (if m_colorScheme s7 \<noteq> colorScheme
                then s7\<lparr>m_colorScheme := colorScheme\<rparr> else s7);
          userIntfScaleFactor =
            (if qt_interface_scale env = - 1
             then float_of_double
                    (toDouble (settings_value (settings env) ''MainWindow/interface-scale''
                                 (QVDouble 1)))
             else qt_interface_scale env)
      in if m_intfUserScaleFactor s8 \<noteq> userIntfScaleFactor
         then updateIntfScaleFactor env (s8\<lparr>m_intfUserScaleFactor := userIntfScaleFactor\<rparr>)
         else s8)"

text \<open>A context and two environments to evaluate the definitions on; the bounds of
  the user scale factor are 0.3 and 3.\<close>

definition ctx0 :: MainCtx where
  "ctx0 = \<lparr>b_playlistDocked = True, playlistVisible = True, playlistWidthFactor = 2,
           m_gridView = False, m_grouping = 1, m_showRemainingTime = False,
           m_pinVideoControls = False, m_colorScheme = 2, m_intfUserScaleFactor = 3,
           m_intfScaleFactor = 3, b_interfaceOnTop = False, m_hasAcrylicSurface = False,
           m_acrylicActive = False, m_preferHotkeys = False,
           m_videoSurfaceProvider = Some \<lparr>provider_id = 1, hasVideoEmbed = True\<rparr>,
           hasVideoEmbedChanged_connected = True, emitted = []\<rparr>"

definition env_empty :: "real \<Rightarrow> intf_env" where
  "env_empty inherited =
     \<lparr>settings = Map.empty, qt_interface_scale = inherited, screen_dpi = None,
      minIntfUserScaleFactor = 3 / 10, maxIntfUserScaleFactor = 3\<rparr>"

definition env_scaled :: "real \<Rightarrow> real \<Rightarrow> intf_env" where
  "env_scaled stored inherited =
     \<lparr>settings = [''MainWindow/interface-scale'' \<mapsto> QVDouble stored],
      qt_interface_scale = inherited, screen_dpi = Some 96,
      minIntfUserScaleFactor = 3 / 10, maxIntfUserScaleFactor = 3\<rparr>"

section \<open>Drag and drop (\<open>MainCtx::dropEventPlay\<close>)\<close>

text \<open>
  A URL is known to the code through four observations. The mime data carries a list of
  URLs when it has the URL format, and a text when it has the text format.
\<close>

record QUrl =
  isValid :: bool
  toEncoded :: string
  toString :: string
  toLocalFile :: string

record QMimeData =
  uri_list :: "QUrl list option"
  mime_text :: "string option"

definition urls :: "QMimeData \<Rightarrow> QUrl list" where
  "urls m = (case uri_list m of None \<Rightarrow> [] | Some us \<Rightarrow> us)"

definition hasUrls :: "QMimeData \<Rightarrow> bool" where
  "hasUrls m = (uri_list m \<noteq> None)"

definition hasText :: "QMimeData \<Rightarrow> bool" where
  "hasText m = (mime_text m \<noteq> None)"

definition text_of :: "QMimeData \<Rightarrow> string" where
  "text_of m = (case mime_text m of None \<Rightarrow> [] | Some t \<Rightarrow> t)"

text \<open>The drop actions are flags, with the values of the toolkit.\<close>

type_synonym DropActions = "32 word"

definition CopyAction :: DropActions where "CopyAction = 0x1"
definition MoveAction :: DropActions where "MoveAction = 0x2"
definition LinkAction :: DropActions where "LinkAction = 0x4"
definition IgnoreAction :: DropActions where "IgnoreAction = 0x0"

record QDropEvent =
  possibleActions :: DropActions
  dropAction :: DropActions
  mimeData :: QMimeData
  accepted :: bool

type_synonym Media = "string \<times> string"

text \<open>
  What the function calls outside itself: the conversion \<open>toURI\<close>, the parsing of a text
  into a URL, the file system of the platform (used under \<open>_WIN32\<close> only), and the
  player, whose \<open>AddAssociatedMedia\<close> answers with a status that is zero on success.
\<close>

record dnd_env =
  toURI :: "string \<Rightarrow> string"
  QUrl_of :: "string \<Rightarrow> QUrl"
  WIN32 :: bool
  info_exists :: "string \<Rightarrow> bool"
  info_isSymLink :: "string \<Rightarrow> bool"
  info_symLinkTarget :: "string \<Rightarrow> string"
  QFile_exists :: "string \<Rightarrow> bool"
  QUrl_fromLocalFile :: "string \<Rightarrow> QUrl"
  hasInput :: bool
  AddAssociatedMedia :: "string \<Rightarrow> int"

text \<open>The state the function works on: the event, the playback queue (the main playlist,
  to which \<open>append\<close> adds at the end), the subtitle attachments asked of the player in
  the order of the calls, and the last \<open>b_play\<close> handed to the playlist.\<close>

record dnd_state =
  event :: QDropEvent
  playlist :: "Media list"
  spu_requests :: "string list"
  play_now :: "bool option"

definition url_mrl :: "dnd_env \<Rightarrow> QUrl \<Rightarrow> string" where
  "url_mrl env url =
     (let mrl = toURI env (toEncoded url)
      in if WIN32 env \<and> info_exists env (toLocalFile url) \<and> info_isSymLink env (toLocalFile url)
         then (let target = info_symLinkTarget env (toLocalFile url);
                   url' = (if QFile_exists env target
                           then QUrl_fromLocalFile env target
                           else QUrl_of env target)
               in toURI env (toEncoded url'))
         else mrl)"

fun collect_medias :: "dnd_env \<Rightarrow> QUrl list \<Rightarrow> Media list \<Rightarrow> Media list" where
  "collect_medias env [] medias = medias"
| "collect_medias env (url # rest) medias =
     (if isValid url
      then (let mrl = url_mrl env url
            in if length mrl > 0
               then collect_medias env rest (medias @ [(mrl, [])])
               else collect_medias env rest medias)
      else collect_medias env rest medias)"

definition accept_event :: "dnd_state \<Rightarrow> dnd_state" where
  "accept_event s = s\<lparr>event := (event s)\<lparr>accepted := True\<rparr>\<rparr>"

definition append_medias :: "Media list \<Rightarrow> bool \<Rightarrow> dnd_state \<Rightarrow> dnd_state" where
  "append_medias medias b_play s =
     s\<lparr>playlist := playlist s @ medias, play_now := Some b_play\<rparr>"

definition enqueue_dropped :: "dnd_env \<Rightarrow> bool \<Rightarrow> dnd_state \<Rightarrow> dnd_state" where
  "enqueue_dropped env b_play s =
     (let md = mimeData (event s);
          medias = collect_medias env (urls md) [];
          medias' = (if \<not> hasUrls md \<and> hasText md \<and> isValid (QUrl_of env (text_of md))
                     then medias @ [(toURI env (text_of md), [])]
                     else medias);
          s1 = (if medias' \<noteq> [] then append_medias medias' b_play s else s)
      in accept_event s1)"

definition dropEventPlay :: "dnd_env \<Rightarrow> bool \<Rightarrow> dnd_state \<Rightarrow> dnd_state" where
  "dropEventPlay env b_play s =
     (if possibleActions (event s) AND (CopyAction OR MoveAction OR LinkAction) \<noteq> 0
      then (let s1 = s\<lparr>event := (event s)\<lparr>dropAction := CopyAction\<rparr>\<rparr>;
                md = mimeData (event s1)
            in if length (urls md) = 1 \<and> hasInput env
               then (let u = toString (urls md ! 0);
                         s2 = s1\<lparr>spu_requests := spu_requests s1 @ [u]\<rparr>
                     in if AddAssociatedMedia env u = 0
                        then accept_event s2
                        else enqueue_dropped env b_play s2)
               else enqueue_dropped env b_play s1)
      else s)"

text \<open>Inputs to evaluate the definitions on.\<close>

definition url_sub :: QUrl where
  "url_sub = \<lparr>isValid = True, toEncoded = ''file:///sub.srt'',
              toString = ''file:///sub.srt'', toLocalFile = ''/sub.srt''\<rparr>"

definition url_movie :: QUrl where
  "url_movie = \<lparr>isValid = True, toEncoded = ''file:///movie.mp4'',
                toString = ''file:///movie.mp4'', toLocalFile = ''/movie.mp4''\<rparr>"

definition url_bad :: QUrl where
  "url_bad = \<lparr>isValid = False, toEncoded = [], toString = [], toLocalFile = []\<rparr>"

definition dnd_env0 :: "bool \<Rightarrow> int \<Rightarrow> dnd_env" where
  "dnd_env0 input status =
     \<lparr>toURI = (\<lambda>s. s), QUrl_of = (\<lambda>s. url_bad), WIN32 = False,
      info_exists = (\<lambda>s. False), info_isSymLink = (\<lambda>s. False),
      info_symLinkTarget = (\<lambda>s. s), QFile_exists = (\<lambda>s. False),
      QUrl_fromLocalFile = (\<lambda>s. url_bad), hasInput = input,
      AddAssociatedMedia = (\<lambda>s. status)\<rparr>"

definition dnd_state0 :: "DropActions \<Rightarrow> QUrl list \<Rightarrow> dnd_state" where
  "dnd_state0 actions us =
     \<lparr>event = \<lparr>possibleActions = actions, dropAction = IgnoreAction,
               mimeData = \<lparr>uri_list = Some us, mime_text = None\<rparr>, accepted = False\<rparr>,
      playlist = [(''file:///first.mkv'', [])], spu_requests = [], play_now = None\<rparr>"

section \<open>The macOS video output window module\<close>

subsection \<open>Data\<close>

text \<open>The style masks, with the values of the platform's headers.\<close>

type_synonym NSWindowStyleMask = "64 word"

definition NSWindowStyleMaskBorderless :: NSWindowStyleMask where
  "NSWindowStyleMaskBorderless = 0"

definition NSWindowStyleMaskTitled :: NSWindowStyleMask where
  "NSWindowStyleMaskTitled = push_bit 0 1"

definition NSWindowStyleMaskClosable :: NSWindowStyleMask where
  "NSWindowStyleMaskClosable = push_bit 1 1"

definition NSWindowStyleMaskMiniaturizable :: NSWindowStyleMask where
  "NSWindowStyleMaskMiniaturizable = push_bit 2 1"

definition NSWindowStyleMaskResizable :: NSWindowStyleMask where
  "NSWindowStyleMaskResizable = push_bit 3 1"

definition NSFullScreenWindowMask :: NSWindowStyleMask where
  "NSFullScreenWindowMask = push_bit 14 1"

definition decoratedWindowStyleMask :: NSWindowStyleMask where
  "decoratedWindowStyleMask =
     NSWindowStyleMaskTitled OR NSWindowStyleMaskClosable
       OR NSWindowStyleMaskMiniaturizable OR NSWindowStyleMaskResizable"

definition undecoratedWindowStyleMask :: NSWindowStyleMask where
  "undecoratedWindowStyleMask = NSWindowStyleMaskBorderless OR NSWindowStyleMaskResizable"

text \<open>
  The window as the module uses it. Sizes in points are real numbers. The content view
  fills the content area, so its bounds are the content size. \<open>toggleFullScreen\<close> only
  starts the transition: the window counts the transitions asked for, and the platform
  tells the controller when one has completed.
\<close>

record NSWindow =
  styleMask :: NSWindowStyleMask
  contentSize :: "real \<times> real"
  backingScaleFactor :: real
  title :: string
  isVisible :: bool
  isKeyWindow :: bool
  toggles :: nat

record vout_window_cfg_t =
  width :: "32 word"
  height :: "32 word"
  is_decorated :: bool

datatype vlc_status = VLC_SUCCESS | VLC_EGENERIC | VLC_ENOMEM

text \<open>What the core is told (\<open>vout_window_Report...\<close>), and the blocks that tell it.\<close>

datatype vout_report =
    ReportFullscreen
  | ReportWindowed
  | ReportSize "32 word" "32 word"
  | ReportClose

datatype event_block =
    EvFullscreen
  | EvWindowed
  | EvSizeChanged "real \<times> real"
  | EvClose

datatype fault = NullWindow | NullSys | SizeOutOfRange

datatype message = Info string | Err string

text \<open>The delegate: the pointer to the core's window (\<open>True\<close> while it is not
  \<open>NULL\<close>), and its serial queue of blocks not yet run.\<close>

record VLCVideoWindowModuleDelegate =
  vlc_vout_window :: bool
  eventQueue :: "event_block list"

text \<open>The module's \<open>sys\<close>: for each field, whether it holds the object or \<open>nil\<close>.\<close>

record vout_window_sys_t =
  windowController :: bool
  delegate :: bool

text \<open>The blocks sent to the main queue. Each captures a weak reference to the
  controller: the flag tells whether the reference was \<open>nil\<close> from the start.\<close>

datatype ui_action =
    DoShowWindowWithConfig vout_window_cfg_t
  | DoClose
  | DoResize "32 word" "32 word"
  | DoSetDecorated bool
  | DoSetFullscreen bool
  | DoSetTitle string

type_synonym ui_block = "bool \<times> ui_action"

text \<open>
  The whole of it. \<open>the_delegate\<close> and \<open>the_controller\<close> are the two objects while
  they are allocated: a weak reference to an object that is gone reads \<open>nil\<close>. The
  controller is owned by \<open>sys\<close>, and \<open>ui_owns_controller\<close> tells whether the user
  interface holds it as well (the window and its controller can still be around when
  the module is gone). The delegate is owned by \<open>sys\<close> and by every block in its queue.
\<close>

record vout =
  NSApp :: bool
  ops :: bool
  sys :: "vout_window_sys_t option"
  type_nsobject :: bool
  the_delegate :: "VLCVideoWindowModuleDelegate option"
  the_controller :: "NSWindow option"
  ui_owns_controller :: bool
  main_queue :: "ui_block list"
  received :: "vout_report list"
  faults :: "fault list"
  messages :: "message list"

text \<open>What an allocation gives is not the module's choice: \<open>Open\<close> is given the outcome
  of each, the title prefix \<open>VOUT_TITLE\<close> and the scale factor of the screen.\<close>

record open_env =
  calloc_ok :: bool
  delegate_ok :: bool
  controller_ok :: bool
  view_ok :: bool
  VOUT_TITLE :: string
  screen_scale :: real

subsection \<open>The delegate\<close>

definition initWithVLCVoutWindow :: VLCVideoWindowModuleDelegate where
  "initWithVLCVoutWindow = \<lparr>vlc_vout_window = True, eventQueue = []\<rparr>"

definition enqueueEventBlock ::
  "event_block \<Rightarrow> VLCVideoWindowModuleDelegate \<Rightarrow> VLCVideoWindowModuleDelegate" where
  "enqueueEventBlock block d = d\<lparr>eventQueue := eventQueue d @ [block]\<rparr>"

definition reportFullscreen :: "VLCVideoWindowModuleDelegate \<Rightarrow> VLCVideoWindowModuleDelegate" where
  "reportFullscreen = enqueueEventBlock EvFullscreen"

definition reportWindowed :: "VLCVideoWindowModuleDelegate \<Rightarrow> VLCVideoWindowModuleDelegate" where
  "reportWindowed = enqueueEventBlock EvWindowed"

definition reportSizeChanged ::
  "real \<times> real \<Rightarrow> VLCVideoWindowModuleDelegate \<Rightarrow> VLCVideoWindowModuleDelegate" where
  "reportSizeChanged newSize = enqueueEventBlock (EvSizeChanged newSize)"

definition reportClose :: "VLCVideoWindowModuleDelegate \<Rightarrow> VLCVideoWindowModuleDelegate" where
  "reportClose = enqueueEventBlock EvClose"

text \<open>A message to the weak reference \<open>_moduleDelegate\<close>: nothing happens when it reads
  \<open>nil\<close>.\<close>

definition to_moduleDelegate ::
  "(VLCVideoWindowModuleDelegate \<Rightarrow> VLCVideoWindowModuleDelegate) \<Rightarrow> vout \<Rightarrow> vout" where
  "to_moduleDelegate msg w =
     (case the_delegate w of
        None \<Rightarrow> w
      | Some d \<Rightarrow> w\<lparr>the_delegate := Some (msg d)\<rparr>)"

text \<open>The cast \<open>(unsigned int)\<close> of a size: the value is truncated, and the result is
  undefined when it is out of range.\<close>

definition unsigned_of_CGFloat :: "real \<Rightarrow> 32 word option" where
  "unsigned_of_CGFloat x =
     (let t = (if x \<ge> 0 then \<lfloor>x\<rfloor> else \<lceil>x\<rceil>)
      in if 0 \<le> t \<and> t < 2 ^ 32 then Some (word_of_int t) else None)"

text \<open>Running one block of the delegate's queue: the core is told, through the pointer
  the delegate holds.\<close>

definition vout_window_Report :: "bool \<Rightarrow> vout_report \<Rightarrow> vout \<Rightarrow> vout" where
  "vout_window_Report window r w =
     (if window then w\<lparr>received := received w @ [r]\<rparr>
      else w\<lparr>faults := faults w @ [NullWindow]\<rparr>)"

fun run_event_block :: "bool \<Rightarrow> event_block \<Rightarrow> vout \<Rightarrow> vout" where
  "run_event_block window EvFullscreen w = vout_window_Report window ReportFullscreen w"
| "run_event_block window EvWindowed w = vout_window_Report window ReportWindowed w"
| "run_event_block window (EvSizeChanged newSize) w =
     (case (unsigned_of_CGFloat (fst newSize), unsigned_of_CGFloat (snd newSize)) of
        (Some x, Some y) \<Rightarrow> vout_window_Report window (ReportSize x y) w
      | _ \<Rightarrow> w\<lparr>faults := faults w @ [SizeOutOfRange]\<rparr>)"
| "run_event_block window EvClose w = vout_window_Report window ReportClose w"

text \<open>
  The delegate goes when nothing owns it: \<open>dealloc\<close> clears the pointer to the core's
  window on the queue, and the object is gone.
\<close>

definition sys_holds_delegate :: "vout \<Rightarrow> bool" where
  "sys_holds_delegate w = (case sys w of None \<Rightarrow> False | Some s \<Rightarrow> delegate s)"

definition sys_holds_controller :: "vout \<Rightarrow> bool" where
  "sys_holds_controller w = (case sys w of None \<Rightarrow> False | Some s \<Rightarrow> windowController s)"

definition release_delegate :: "vout \<Rightarrow> vout" where
  "release_delegate w =
     (case the_delegate w of
        None \<Rightarrow> w
      | Some d \<Rightarrow>
          if sys_holds_delegate w \<or> eventQueue d \<noteq> [] then w
          else w\<lparr>the_delegate := None\<rparr>)"

definition release_controller :: "vout \<Rightarrow> vout" where
  "release_controller w =
     (if sys_holds_controller w \<or> ui_owns_controller w then w
      else w\<lparr>the_controller := None\<rparr>)"

text \<open>The delegate's queue runs its blocks in order; each block is then released, and
  with it its hold on the delegate.\<close>

definition run_eventQueue :: "vout \<Rightarrow> vout" where
  "run_eventQueue w =
     (case the_delegate w of
        None \<Rightarrow> w
      | Some d \<Rightarrow>
          release_delegate
            (fold (run_event_block (vlc_vout_window d)) (eventQueue d)
               (w\<lparr>the_delegate := Some (d\<lparr>eventQueue := []\<rparr>)\<rparr>)))"

subsection \<open>The window controller and the content view\<close>

definition convertRectFromBacking :: "NSWindow \<Rightarrow> real \<times> real \<Rightarrow> real \<times> real" where
  "convertRectFromBacking win backingRect =
     (fst backingRect / backingScaleFactor win, snd backingRect / backingScaleFactor win)"

definition convertRectToBacking :: "NSWindow \<Rightarrow> real \<times> real \<Rightarrow> real \<times> real" where
  "convertRectToBacking win rect =
     (fst rect * backingScaleFactor win, snd rect * backingScaleFactor win)"

definition NSMakeRect :: "32 word \<Rightarrow> 32 word \<Rightarrow> real \<times> real" where
  "NSMakeRect w h = (real (unat w), real (unat h))"

definition setContentSize :: "real \<times> real \<Rightarrow> NSWindow \<Rightarrow> NSWindow" where
  "setContentSize sz win = win\<lparr>contentSize := sz\<rparr>"

definition bounds :: "NSWindow \<Rightarrow> real \<times> real" where
  "bounds win = contentSize win"

definition setWindowDecorated :: "bool \<Rightarrow> NSWindow \<Rightarrow> NSWindow" where
  "setWindowDecorated decorated win =
     (let mask = (if decorated then decoratedWindowStyleMask else undecoratedWindowStyleMask)
      in win\<lparr>styleMask := mask\<rparr>)"

definition showWindowWithConfig :: "vout_window_cfg_t \<Rightarrow> NSWindow \<Rightarrow> NSWindow" where
  "showWindowWithConfig config win =
     (let backingRect = NSMakeRect (width config) (height config);
          windowRect = convertRectFromBacking win backingRect;
          win1 = setContentSize windowRect win;
          win2 = setWindowDecorated (is_decorated config) win1
      in win2\<lparr>isVisible := True, isKeyWindow := True\<rparr>)"

definition isWindowFullscreen :: "NSWindow \<Rightarrow> bool" where
  "isWindowFullscreen win = (styleMask win AND NSFullScreenWindowMask = NSFullScreenWindowMask)"

definition toggleFullScreen :: "NSWindow \<Rightarrow> NSWindow" where
  "toggleFullScreen win = win\<lparr>toggles := Suc (toggles win)\<rparr>"

text \<open>The methods below run with the controller \<open>win\<close> as \<open>self\<close>.\<close>

definition setWindowFullscreen :: "bool \<Rightarrow> NSWindow \<Rightarrow> vout \<Rightarrow> vout" where
  "setWindowFullscreen fullscreen win w =
     (if fullscreen = isWindowFullscreen win
      then (if fullscreen then to_moduleDelegate reportFullscreen w
            else to_moduleDelegate reportWindowed w)
      else w\<lparr>the_controller := Some (toggleFullScreen win)\<rparr>)"

definition windowShouldClose :: "vout \<Rightarrow> bool \<times> vout" where
  "windowShouldClose w = (True, to_moduleDelegate reportClose w)"

definition windowDidEnterFullScreen :: "vout \<Rightarrow> vout" where
  "windowDidEnterFullScreen w = to_moduleDelegate reportFullscreen w"

definition windowDidExitFullScreen :: "vout \<Rightarrow> vout" where
  "windowDidExitFullScreen w = to_moduleDelegate reportWindowed w"

definition reportBackingSize :: "NSWindow \<Rightarrow> vout \<Rightarrow> vout" where
  "reportBackingSize win w =
     (let b = convertRectToBacking win (bounds win)
      in to_moduleDelegate (reportSizeChanged b) w)"

definition resizeSubviewsWithOldSize :: "NSWindow \<Rightarrow> vout \<Rightarrow> vout" where
  "resizeSubviewsWithOldSize win w = reportBackingSize win w"

definition viewDidChangeBackingProperties :: "NSWindow \<Rightarrow> vout \<Rightarrow> vout" where
  "viewDidChangeBackingProperties win w = reportBackingSize win w"

text \<open>\<open>initWithModuleDelegate\<close>: \<open>nil\<close> when the controller or the view cannot be made;
  else the controller, and the view is handed to the core's window.\<close>

definition setViewObject :: "vout \<Rightarrow> vout" where
  "setViewObject w =
     (case the_delegate w of
        None \<Rightarrow> w
      | Some d \<Rightarrow>
          if vlc_vout_window d then w\<lparr>type_nsobject := True\<rparr>
          else w\<lparr>faults := faults w @ [NullWindow]\<rparr>)"

definition initWithModuleDelegate :: "open_env \<Rightarrow> vout \<Rightarrow> NSWindow option \<times> vout" where
  "initWithModuleDelegate env w =
     (let window = \<lparr>styleMask = decoratedWindowStyleMask, contentSize = (0, 0),
                     backingScaleFactor = screen_scale env, title = [],
                     isVisible = False, isKeyWindow = False, toggles = 0\<rparr>
      in if \<not> controller_ok env then (None, w)
         else (let window1 = window\<lparr>title := VOUT_TITLE env @ '' (VLC Video Output)''\<rparr>
               in if \<not> view_ok env then (None, w)
                  else (Some window1, setViewObject w)))"

subsection \<open>The main queue\<close>

text \<open>A block runs on the main thread. Its weak reference reads \<open>nil\<close> when it was
  \<open>nil\<close> from the start or when the controller is gone, and then nothing happens.\<close>

fun ui_action_run :: "ui_action \<Rightarrow> NSWindow \<Rightarrow> vout \<Rightarrow> vout" where
  "ui_action_run (DoShowWindowWithConfig cfg) win w =
     w\<lparr>the_controller := Some (showWindowWithConfig cfg win)\<rparr>"
| "ui_action_run DoClose win w =
     w\<lparr>the_controller := Some (win\<lparr>isVisible := False, isKeyWindow := False\<rparr>)\<rparr>"
| "ui_action_run (DoResize wd ht) win w =
     (let backingRect = NSMakeRect wd ht;
          windowRect = convertRectFromBacking win backingRect
      in w\<lparr>the_controller := Some (setContentSize windowRect win)\<rparr>)"
| "ui_action_run (DoSetDecorated decorated) win w =
     w\<lparr>the_controller := Some (setWindowDecorated decorated win)\<rparr>"
| "ui_action_run (DoSetFullscreen fullscreen) win w = setWindowFullscreen fullscreen win w"
| "ui_action_run (DoSetTitle t) win w = w\<lparr>the_controller := Some (win\<lparr>title := t\<rparr>)\<rparr>"

definition ui_run :: "ui_block \<Rightarrow> vout \<Rightarrow> vout" where
  "ui_run blk w =
     (if fst blk
      then (case the_controller w of
              None \<Rightarrow> w
            | Some win \<Rightarrow> ui_action_run (snd blk) win w)
      else w)"

definition dispatch_async_main :: "ui_block \<Rightarrow> vout \<Rightarrow> vout" where
  "dispatch_async_main blk w = w\<lparr>main_queue := main_queue w @ [blk]\<rparr>"

definition run_main_queue :: "vout \<Rightarrow> vout" where
  "run_main_queue w = fold ui_run (main_queue w) (w\<lparr>main_queue := []\<rparr>)"

text \<open>\<open>dispatch_sync\<close> returns when the block has run, after the blocks queued before
  it.\<close>

definition dispatch_sync_main :: "ui_block \<Rightarrow> vout \<Rightarrow> vout" where
  "dispatch_sync_main blk w = ui_run blk (run_main_queue w)"

subsection \<open>The module\<close>

definition WindowEnable :: "vout_window_cfg_t \<Rightarrow> vout \<Rightarrow> fault + vlc_status \<times> vout" where
  "WindowEnable cfg w =
     (case sys w of
        None \<Rightarrow> Inl NullSys
      | Some s \<Rightarrow>
          Inr (VLC_SUCCESS,
               dispatch_sync_main (windowController s, DoShowWindowWithConfig cfg) w))"

definition WindowDisable :: "vout \<Rightarrow> fault + vout" where
  "WindowDisable w =
     (case sys w of
        None \<Rightarrow> Inl NullSys
      | Some s \<Rightarrow> Inr (dispatch_async_main (windowController s, DoClose) w))"

definition WindowResize :: "32 word \<Rightarrow> 32 word \<Rightarrow> vout \<Rightarrow> fault + vout" where
  "WindowResize wd ht w =
     (case sys w of
        None \<Rightarrow> Inl NullSys
      | Some s \<Rightarrow> Inr (dispatch_async_main (windowController s, DoResize wd ht) w))"

definition SetDecoration :: "bool \<Rightarrow> vout \<Rightarrow> fault + vout" where
  "SetDecoration decorated w =
     (case sys w of
        None \<Rightarrow> Inl NullSys
      | Some s \<Rightarrow> Inr (dispatch_async_main (windowController s, DoSetDecorated decorated) w))"

definition WindowSetFullscreen :: "vout \<Rightarrow> fault + vout" where
  "WindowSetFullscreen w =
     (case sys w of
        None \<Rightarrow> Inl NullSys
      | Some s \<Rightarrow> Inr (dispatch_async_main (windowController s, DoSetFullscreen True) w))"

definition WindowUnsetFullscreen :: "vout \<Rightarrow> fault + vout" where
  "WindowUnsetFullscreen w =
     (case sys w of
        None \<Rightarrow> Inl NullSys
      | Some s \<Rightarrow> Inr (dispatch_async_main (windowController s, DoSetFullscreen False) w))"

definition WindowSetTitle :: "string \<Rightarrow> vout \<Rightarrow> fault + vout" where
  "WindowSetTitle t w =
     (case sys w of
        None \<Rightarrow> Inl NullSys
      | Some s \<Rightarrow> Inr (dispatch_async_main (windowController s, DoSetTitle t) w))"

definition Close :: "vout \<Rightarrow> fault + vout" where
  "Close w =
     (case sys w of
        None \<Rightarrow> Inl NullSys
      | Some s \<Rightarrow>
          (let s1 = s\<lparr>windowController := False\<rparr>;
               w1 = release_controller (w\<lparr>sys := Some s1\<rparr>);
               s2 = s1\<lparr>delegate := False\<rparr>
           in Inr (release_delegate (w1\<lparr>sys := Some s2\<rparr>))))"

definition Open :: "open_env \<Rightarrow> vout \<Rightarrow> vlc_status \<times> vout" where
  "Open env w =
     (let w0 = w\<lparr>messages := messages w
                  @ [Info ''using the macOS new video output window module'']\<rparr>
      in if \<not> NSApp w0
         then (VLC_EGENERIC,
               w0\<lparr>messages := messages w0
                  @ [Err ''cannot create video output window without NSApplication'']\<rparr>)
         else if \<not> calloc_ok env then (VLC_ENOMEM, w0)
         else if \<not> delegate_ok env then (VLC_ENOMEM, w0)
         else (let w1 = w0\<lparr>the_delegate := Some initWithVLCVoutWindow\<rparr>;
                   r = initWithModuleDelegate env (run_main_queue w1)
               in case fst r of
                    None \<Rightarrow> (VLC_ENOMEM, snd r)
                  | Some win \<Rightarrow>
                      (VLC_SUCCESS,
                       (snd r)\<lparr>the_controller := Some win, ops := True,
                               sys := Some \<lparr>windowController = True, delegate = True\<rparr>\<rparr>)))"

subsection \<open>What happens on the side of the user interface\<close>

text \<open>
  The platform calls the window delegate and the view: the user closes the window, a
  fullscreen transition completes (the platform has then changed the style mask), the
  content view gets a new size or a new scale factor. The two queues run their blocks.
\<close>

datatype ui_event =
    UserClosesWindow
  | FullScreenEntered
  | FullScreenExited
  | ViewResized "real \<times> real"
  | BackingChanged real
  | MainQueueRuns
  | EventQueueRuns

fun ui_event_run :: "ui_event \<Rightarrow> NSWindow \<Rightarrow> vout \<Rightarrow> vout" where
  "ui_event_run UserClosesWindow win w =
     (let r = windowShouldClose w
      in if fst r
         then (snd r)\<lparr>the_controller := Some (win\<lparr>isVisible := False, isKeyWindow := False\<rparr>)\<rparr>
         else snd r)"
| "ui_event_run FullScreenEntered win w =
     windowDidEnterFullScreen
       (w\<lparr>the_controller :=
            Some (win\<lparr>styleMask := styleMask win OR NSFullScreenWindowMask,
                      toggles := toggles win - 1\<rparr>)\<rparr>)"
| "ui_event_run FullScreenExited win w =
     windowDidExitFullScreen
       (w\<lparr>the_controller :=
            Some (win\<lparr>styleMask := styleMask win AND NOT NSFullScreenWindowMask,
                      toggles := toggles win - 1\<rparr>)\<rparr>)"
| "ui_event_run (ViewResized sz) win w =
     (let win1 = setContentSize sz win
      in resizeSubviewsWithOldSize win1 (w\<lparr>the_controller := Some win1\<rparr>))"
| "ui_event_run (BackingChanged k) win w =
     (let win1 = win\<lparr>backingScaleFactor := k\<rparr>
      in viewDidChangeBackingProperties win1 (w\<lparr>the_controller := Some win1\<rparr>))"
| "ui_event_run MainQueueRuns win w = run_main_queue w"
| "ui_event_run EventQueueRuns win w = run_eventQueue w"

definition ui_step :: "ui_event \<Rightarrow> vout \<Rightarrow> vout" where
  "ui_step ev w =
     (if ev = MainQueueRuns then run_main_queue w
      else if ev = EventQueueRuns then run_eventQueue w
      else (case the_controller w of
              None \<Rightarrow> w
            | Some win \<Rightarrow> ui_event_run ev win w))"

text \<open>States to evaluate the definitions on.\<close>

definition vout0 :: "bool \<Rightarrow> vout" where
  "vout0 app =
     \<lparr>NSApp = app, ops = False, sys = None, type_nsobject = False, the_delegate = None,
      the_controller = None, ui_owns_controller = True, main_queue = [], received = [],
      faults = [], messages = []\<rparr>"

definition open_env0 :: "bool \<Rightarrow> open_env" where
  "open_env0 mem =
     \<lparr>calloc_ok = mem, delegate_ok = True, controller_ok = True, view_ok = True,
      VOUT_TITLE = ''VLC media player'', screen_scale = 2\<rparr>"

definition cfg0 :: vout_window_cfg_t where
  "cfg0 = \<lparr>width = 1280, height = 720, is_decorated = True\<rparr>"

definition opened0 :: vout where
  "opened0 = snd (Open (open_env0 True) (vout0 True))"

text \<open>The open module after the user has resized the view to 640 by 360 points, the
  report not yet run; and that module closed.\<close>

definition resized0 :: vout where
  "resized0 = ui_step (ViewResized (640, 360)) opened0"

definition closed0 :: vout where
  "closed0 = (case Close resized0 of Inl f \<Rightarrow> resized0 | Inr w \<Rightarrow> w)"

section \<open>Properties of the main interface context\<close>

subsection \<open>Setters\<close>




text \<open>
  C10: the setter of the playlist width factor ignores a factor that is not positive:
  the state, and with it the list of signals sent, stays as it is. A positive factor is
  stored and \<open>playlistWidthFactorChanged\<close> is sent once, whatever the factor was
  before, and no other field changes.
\<close>

theorem setPlaylistWidthFactor_guard:
  "(factor \<le> 0 \<longrightarrow> setPlaylistWidthFactor factor s = s)
   \<and> (factor > 0 \<longrightarrow>
        setPlaylistWidthFactor factor s
          = s\<lparr>playlistWidthFactor := factor,
               emitted := emitted s @ [playlistWidthFactorChanged factor]\<rparr>)"
  by (simp add: setPlaylistWidthFactor_def emit_def)

theorem setPlaylistWidthFactor_guard_witness:
  "setPlaylistWidthFactor (- 1) ctx0 = ctx0
   \<and> setPlaylistWidthFactor 0 ctx0 = ctx0
   \<and> playlistWidthFactor ctx0 = 2
   \<and> playlistWidthFactor (setPlaylistWidthFactor 2 ctx0) = 2
   \<and> emitted (setPlaylistWidthFactor 2 ctx0) = [playlistWidthFactorChanged 2]"
  using setPlaylistWidthFactor_guard [of "- 1" ctx0] setPlaylistWidthFactor_guard [of 0 ctx0]
    setPlaylistWidthFactor_guard [of 2 ctx0]
  by (simp add: ctx0_def)

subsection \<open>What a load leaves in each field\<close>

lemma loadFromSettings_variable:
  "variable (assign (conv (settings_value (settings env) name defaultValue)) s)
     = conv (settings_value (settings env) name defaultValue) \<Longrightarrow>
   (\<And>sg c. variable (emit sg c) = variable c) \<Longrightarrow>
   variable (loadFromSettings env callSignals conv variable assign name defaultValue sg s)
     = conv (settings_value (settings env) name defaultValue)"
  by (simp add: loadFromSettings_def Let_def)

lemma loadFromSettings_other:
  "(\<And>v c. f (assign v c) = f c) \<Longrightarrow> (\<And>sg c. f (emit sg c) = f c) \<Longrightarrow>
   f (loadFromSettings env callSignals conv variable assign name defaultValue sg s) = f s"
  by (simp add: loadFromSettings_def Let_def)

lemma emit_fields:
  "b_playlistDocked (emit sg c) = b_playlistDocked c"
  "playlistVisible (emit sg c) = playlistVisible c"
  "playlistWidthFactor (emit sg c) = playlistWidthFactor c"
  "m_gridView (emit sg c) = m_gridView c"
  "m_grouping (emit sg c) = m_grouping c"
  "m_colorScheme (emit sg c) = m_colorScheme c"
  "m_intfUserScaleFactor (emit sg c) = m_intfUserScaleFactor c"
  by (simp_all add: emit_def)

lemma updateIntfScaleFactor_fields:
  "b_playlistDocked (updateIntfScaleFactor env c) = b_playlistDocked c"
  "playlistVisible (updateIntfScaleFactor env c) = playlistVisible c"
  "playlistWidthFactor (updateIntfScaleFactor env c) = playlistWidthFactor c"
  "m_gridView (updateIntfScaleFactor env c) = m_gridView c"
  "m_grouping (updateIntfScaleFactor env c) = m_grouping c"
  "m_colorScheme (updateIntfScaleFactor env c) = m_colorScheme c"
  "m_intfUserScaleFactor (updateIntfScaleFactor env c) = m_intfUserScaleFactor c"
  by (simp_all add: updateIntfScaleFactor_def Let_def emit_def split: option.split)

lemmas loadFromSettings_keeps =
  loadFromSettings_other [where f = b_playlistDocked]
  loadFromSettings_other [where f = playlistVisible]
  loadFromSettings_other [where f = playlistWidthFactor]
  loadFromSettings_other [where f = m_gridView]
  loadFromSettings_other [where f = m_grouping]
  loadFromSettings_other [where f = m_colorScheme]
  loadFromSettings_other [where f = m_intfUserScaleFactor]

text \<open>The conversion to \<open>float\<close> keeps 1 and 2, and moves 1.1 to the nearest
  \<open>float\<close>.\<close>

lemma float_of_double_1:
  "float_of_double 1 = 1"
  by code_simp

lemma float_of_double_2:
  "float_of_double 2 = 2"
  by code_simp

lemma float_of_double_11_10:
  "float_of_double (11 / 10) = 9227469 / 8388608"
  by code_simp

lemma load_intfUserScaleFactor:
  "m_intfUserScaleFactor (loadFromSettingsImpl env callSignals s) =
     (if qt_interface_scale env = - 1
      then float_of_double
             (toDouble (settings_value (settings env) ''MainWindow/interface-scale''
                          (QVDouble 1)))
      else qt_interface_scale env)"
  unfolding loadFromSettingsImpl_def
  apply (simp only: Let_def)
  apply (simp add: updateIntfScaleFactor_fields)
  done

lemma load_colorScheme:
  "m_colorScheme (loadFromSettingsImpl env callSignals s) =
     toInt (settings_value (settings env) ''MainWindow/color-scheme''
              (QVInt ColorSchemeModel_System))"
  unfolding loadFromSettingsImpl_def
  apply (simp only: Let_def)
  apply (simp add: updateIntfScaleFactor_fields)
  done

lemma load_playlistDocked:
  "b_playlistDocked (loadFromSettingsImpl env callSignals s) =
     toBool (settings_value (settings env) ''MainWindow/pl-dock-status'' (QVBool True))"
  unfolding loadFromSettingsImpl_def
  apply (simp only: Let_def)
  apply (simp add: updateIntfScaleFactor_fields emit_fields loadFromSettings_keeps
      loadFromSettings_variable)
  done

lemma load_playlistVisible:
  "playlistVisible (loadFromSettingsImpl env callSignals s) =
     toBool (settings_value (settings env) ''MainWindow/playlist-visible'' (QVBool False))"
  unfolding loadFromSettingsImpl_def
  apply (simp only: Let_def)
  apply (simp add: updateIntfScaleFactor_fields emit_fields loadFromSettings_keeps
      loadFromSettings_variable)
  done

lemma load_playlistWidthFactor:
  "playlistWidthFactor (loadFromSettingsImpl env callSignals s) =
     toDouble (settings_value (settings env) ''MainWindow/playlist-width-factor'' (QVDouble 4))"
  unfolding loadFromSettingsImpl_def
  apply (simp only: Let_def)
  apply (simp add: updateIntfScaleFactor_fields emit_fields loadFromSettings_keeps
      loadFromSettings_variable)
  done

lemma load_gridView:
  "m_gridView (loadFromSettingsImpl env callSignals s) =
     toBool (settings_value (settings env) ''MainWindow/grid-view'' (QVBool True))"
  unfolding loadFromSettingsImpl_def
  apply (simp only: Let_def)
  apply (simp add: updateIntfScaleFactor_fields emit_fields loadFromSettings_keeps
      loadFromSettings_variable)
  done

lemma load_grouping:
  "m_grouping (loadFromSettingsImpl env callSignals s) =
     toInt (settings_value (settings env) ''MainWindow/grouping'' (QVInt GROUPING_NONE))"
  unfolding loadFromSettingsImpl_def
  apply (simp only: Let_def)
  apply (simp add: updateIntfScaleFactor_fields emit_fields loadFromSettings_keeps
      loadFromSettings_variable)
  done

text \<open>
  C4 (as stated): loading from an empty store gives the interface scale 1.0. It does not
  when the engine hands down an interface scale of its own: with an empty store and the
  inherited option at 2, the loaded user scale factor is 2.
\<close>

theorem load_empty_store_inherited_scale:
  "settings (env_empty 2) = Map.empty
   \<and> m_intfUserScaleFactor (loadFromSettingsImpl (env_empty 2) False ctx0) = 2"
  by (simp add: load_intfUserScaleFactor env_empty_def)

text \<open>
  C4 (amended): loading from an empty store gives the playlist width factor 4.0, the
  grid view on, the grouping \<open>NONE\<close>, the colour scheme \<open>SYSTEM\<close>, the playlist docked
  and the playlist not visible, whatever the fields held before; the interface scale
  is 1.0 when the inherited engine option is the sentinel -1.
\<close>

theorem load_empty_store_defaults:
  assumes "settings env = Map.empty"
  shows "playlistWidthFactor (loadFromSettingsImpl env callSignals s) = 4
   \<and> m_gridView (loadFromSettingsImpl env callSignals s) = True
   \<and> m_grouping (loadFromSettingsImpl env callSignals s) = GROUPING_NONE
   \<and> m_colorScheme (loadFromSettingsImpl env callSignals s) = ColorSchemeModel_System
   \<and> b_playlistDocked (loadFromSettingsImpl env callSignals s) = True
   \<and> playlistVisible (loadFromSettingsImpl env callSignals s) = False
   \<and> (qt_interface_scale env = - 1 \<longrightarrow>
        m_intfUserScaleFactor (loadFromSettingsImpl env callSignals s) = 1)"
  using assms
  by (simp add: load_playlistWidthFactor load_gridView load_grouping load_colorScheme
      load_playlistDocked load_playlistVisible load_intfUserScaleFactor settings_value_def
      float_of_double_1)

theorem load_empty_store_defaults_witness:
  "settings (env_empty (- 1)) = Map.empty
   \<and> qt_interface_scale (env_empty (- 1)) = - 1
   \<and> playlistWidthFactor ctx0 = 2
   \<and> playlistWidthFactor (loadFromSettingsImpl (env_empty (- 1)) False ctx0) = 4
   \<and> m_gridView (loadFromSettingsImpl (env_empty (- 1)) False ctx0) = True
   \<and> m_grouping (loadFromSettingsImpl (env_empty (- 1)) False ctx0) = GROUPING_NONE
   \<and> m_colorScheme (loadFromSettingsImpl (env_empty (- 1)) False ctx0) = ColorSchemeModel_System
   \<and> b_playlistDocked (loadFromSettingsImpl (env_empty (- 1)) False ctx0) = True
   \<and> playlistVisible (loadFromSettingsImpl (env_empty (- 1)) False ctx0) = False
   \<and> m_intfUserScaleFactor (loadFromSettingsImpl (env_empty (- 1)) False ctx0) = 1"
proof -
  have e: "settings (env_empty (- 1)) = Map.empty"
    by (simp add: env_empty_def)
  have q: "qt_interface_scale (env_empty (- 1)) = - 1"
    by (simp add: env_empty_def)
  show ?thesis
    using e q load_empty_store_defaults [OF e, of False ctx0]
    by (simp add: ctx0_def)
qed

text \<open>
  C5: on a load, the user interface scale factor is the inherited engine option unless
  that option is the sentinel -1; only then is it taken from the store: the value of
  \<open>MainWindow/interface-scale\<close>, or 1.0 when the key is missing, as the \<open>float\<close> local
  of the function holds it. So when the inherited value is not -1, what the store holds
  does not matter.
\<close>

theorem load_scale_precedence:
  "(qt_interface_scale env \<noteq> - 1 \<longrightarrow>
      m_intfUserScaleFactor (loadFromSettingsImpl env callSignals s) = qt_interface_scale env)
   \<and> (qt_interface_scale env = - 1 \<longrightarrow>
      m_intfUserScaleFactor (loadFromSettingsImpl env callSignals s) =
        float_of_double
          (case settings env ''MainWindow/interface-scale'' of
             None \<Rightarrow> 1
           | Some v \<Rightarrow> toDouble v))"
  by (simp add: load_intfUserScaleFactor settings_value_def split: option.split)

theorem load_scale_precedence_witness:
  "settings (env_scaled 2 (3 / 2)) ''MainWindow/interface-scale'' = Some (QVDouble 2)
   \<and> m_intfUserScaleFactor (loadFromSettingsImpl (env_scaled 2 (3 / 2)) True ctx0) = 3 / 2
   \<and> m_intfUserScaleFactor (loadFromSettingsImpl (env_scaled (11 / 10) (3 / 2)) True ctx0)
       = 3 / 2
   \<and> m_intfUserScaleFactor (loadFromSettingsImpl (env_scaled 2 (- 1)) True ctx0) = 2
   \<and> m_intfUserScaleFactor (loadFromSettingsImpl (env_scaled (11 / 10) (- 1)) True ctx0)
       = 9227469 / 8388608
   \<and> m_intfUserScaleFactor (loadFromSettingsImpl (env_empty (- 1)) True ctx0) = 1"
  using load_scale_precedence [of "env_scaled 2 (3 / 2)" True ctx0]
    load_scale_precedence [of "env_scaled (11 / 10) (3 / 2)" True ctx0]
    load_scale_precedence [of "env_scaled 2 (- 1)" True ctx0]
    load_scale_precedence [of "env_scaled (11 / 10) (- 1)" True ctx0]
    load_scale_precedence [of "env_empty (- 1)" True ctx0]
  by (simp add: env_scaled_def env_empty_def float_of_double_1 float_of_double_2
      float_of_double_11_10)

section \<open>Properties of the drop handler\<close>

lemma collect_medias_eq:
  "collect_medias env us medias =
     medias @ map (\<lambda>u. (url_mrl env u, []))
                (filter (\<lambda>u. isValid u \<and> url_mrl env u \<noteq> []) us)"
  by (induction us arbitrary: medias) (simp_all add: Let_def)

lemma enqueue_dropped_playlist:
  "playlist (enqueue_dropped env b_play s) =
     playlist s
       @ map (\<lambda>u. (url_mrl env u, []))
           (filter (\<lambda>u. isValid u \<and> url_mrl env u \<noteq> []) (urls (mimeData (event s))))
       @ (if \<not> hasUrls (mimeData (event s)) \<and> hasText (mimeData (event s))
             \<and> isValid (QUrl_of env (text_of (mimeData (event s))))
          then [(toURI env (text_of (mimeData (event s))), [])] else [])"
  by (simp add: enqueue_dropped_def Let_def collect_medias_eq append_medias_def accept_event_def)

lemma enqueue_dropped_spu_requests:
  "spu_requests (enqueue_dropped env b_play s) = spu_requests s"
  by (simp add: enqueue_dropped_def Let_def append_medias_def accept_event_def)

text \<open>
  C3 (as stated): every drop of exactly one URL while a media is active first asks the
  player to attach the URL as a subtitle track. The handler does not when the event
  offers none of the copy, move and link actions: it returns at once. Here the event
  offers no action, one URL is dropped and a media is active; no attachment is asked
  for and the state is as before.
\<close>

theorem drop_without_action_ignored:
  "urls (mimeData (event (dnd_state0 IgnoreAction [url_sub]))) = [url_sub]
   \<and> hasInput (dnd_env0 True 0) = True
   \<and> dropEventPlay (dnd_env0 True 0) True (dnd_state0 IgnoreAction [url_sub])
       = dnd_state0 IgnoreAction [url_sub]
   \<and> spu_requests (dropEventPlay (dnd_env0 True 0) True (dnd_state0 IgnoreAction [url_sub]))
       = []"
  by (simp add: dropEventPlay_def dnd_state0_def dnd_env0_def urls_def IgnoreAction_def)

text \<open>
  C3 (amended): take a drop event that offers a copy, move or link action. When exactly
  one URL is dropped while a media is active, the player is first asked to attach it as
  a subtitle track; when the player accepts (status zero), the playback queue is left
  as it is; when the player refuses, the URL is appended to the queue as a new item,
  provided that it is valid and converts to a URI that is not empty. When no media is
  active, no attachment is asked for, and every dropped URL that is valid and converts
  to a URI that is not empty is appended to the queue, in the order of the drop (and,
  when the event has no URL list, its text if the text is a valid URL).
\<close>

theorem drop_subtitle_first:
  assumes "possibleActions (event s) AND (CopyAction OR MoveAction OR LinkAction) \<noteq> 0"
  shows "(urls (mimeData (event s)) = [u] \<and> hasInput env \<longrightarrow>
            spu_requests (dropEventPlay env b_play s) = spu_requests s @ [toString u]
          \<and> (AddAssociatedMedia env (toString u) = 0 \<longrightarrow>
                playlist (dropEventPlay env b_play s) = playlist s)
          \<and> (AddAssociatedMedia env (toString u) \<noteq> 0 \<longrightarrow>
                playlist (dropEventPlay env b_play s) =
                  playlist s @ (if isValid u \<and> url_mrl env u \<noteq> []
                                then [(url_mrl env u, [])] else [])))
       \<and> (\<not> hasInput env \<longrightarrow>
            spu_requests (dropEventPlay env b_play s) = spu_requests s
          \<and> playlist (dropEventPlay env b_play s) =
              playlist s
                @ map (\<lambda>u. (url_mrl env u, []))
                    (filter (\<lambda>u. isValid u \<and> url_mrl env u \<noteq> []) (urls (mimeData (event s))))
                @ (if \<not> hasUrls (mimeData (event s)) \<and> hasText (mimeData (event s))
                      \<and> isValid (QUrl_of env (text_of (mimeData (event s))))
                   then [(toURI env (text_of (mimeData (event s))), [])] else []))"
proof -
  have one: "urls m = [u] \<Longrightarrow> hasUrls m" for m
    by (auto simp: urls_def hasUrls_def split: option.splits)
  show ?thesis
    using assms
    by (auto simp: dropEventPlay_def Let_def enqueue_dropped_playlist
        enqueue_dropped_spu_requests accept_event_def dest: one)
qed

theorem drop_subtitle_first_witness:
  "spu_requests (dropEventPlay (dnd_env0 True 0) True (dnd_state0 CopyAction [url_sub]))
     = [''file:///sub.srt'']
   \<and> playlist (dropEventPlay (dnd_env0 True 0) True (dnd_state0 CopyAction [url_sub]))
     = [(''file:///first.mkv'', [])]
   \<and> spu_requests (dropEventPlay (dnd_env0 True 1) True (dnd_state0 CopyAction [url_movie]))
     = [''file:///movie.mp4'']
   \<and> playlist (dropEventPlay (dnd_env0 True 1) True (dnd_state0 CopyAction [url_movie]))
     = [(''file:///first.mkv'', []), (''file:///movie.mp4'', [])]
   \<and> spu_requests
       (dropEventPlay (dnd_env0 False 0) True (dnd_state0 MoveAction [url_movie, url_bad, url_sub]))
     = []
   \<and> playlist
       (dropEventPlay (dnd_env0 False 0) True (dnd_state0 MoveAction [url_movie, url_bad, url_sub]))
     = [(''file:///first.mkv'', []), (''file:///movie.mp4'', []), (''file:///sub.srt'', [])]"
proof -
  have a: "possibleActions (event (dnd_state0 CopyAction us))
             AND (CopyAction OR MoveAction OR LinkAction) \<noteq> 0" for us
    by (simp add: dnd_state0_def CopyAction_def MoveAction_def LinkAction_def)
  have b: "possibleActions (event (dnd_state0 MoveAction us))
             AND (CopyAction OR MoveAction OR LinkAction) \<noteq> 0" for us
    by (simp add: dnd_state0_def CopyAction_def MoveAction_def LinkAction_def)
  show ?thesis
    using drop_subtitle_first [OF a, of "[url_sub]" url_sub "dnd_env0 True 0" True]
      drop_subtitle_first [OF a, of "[url_movie]" url_movie "dnd_env0 True 1" True]
      drop_subtitle_first [OF b, of "[url_movie, url_bad, url_sub]" url_bad "dnd_env0 False 0" True]
    by (simp add: dnd_state0_def dnd_env0_def urls_def hasUrls_def url_mrl_def
        url_sub_def url_movie_def url_bad_def)
qed


section \<open>Properties of the window module\<close>

subsection \<open>What a block of the main queue can change\<close>

lemma to_moduleDelegate_fields:
  "NSApp (to_moduleDelegate msg w) = NSApp w"
  "ops (to_moduleDelegate msg w) = ops w"
  "sys (to_moduleDelegate msg w) = sys w"
  "type_nsobject (to_moduleDelegate msg w) = type_nsobject w"
  "the_controller (to_moduleDelegate msg w) = the_controller w"
  "ui_owns_controller (to_moduleDelegate msg w) = ui_owns_controller w"
  "main_queue (to_moduleDelegate msg w) = main_queue w"
  "received (to_moduleDelegate msg w) = received w"
  "faults (to_moduleDelegate msg w) = faults w"
  "messages (to_moduleDelegate msg w) = messages w"
  "(the_delegate (to_moduleDelegate msg w) = None) = (the_delegate w = None)"
  by (simp_all add: to_moduleDelegate_def split: option.split)

lemma to_moduleDelegate_nil:
  "the_delegate w = None \<Longrightarrow> to_moduleDelegate msg w = w"
  by (simp add: to_moduleDelegate_def)

lemma to_moduleDelegate_some:
  "the_delegate w = Some d \<Longrightarrow> to_moduleDelegate msg w = w\<lparr>the_delegate := Some (msg d)\<rparr>"
  by (simp add: to_moduleDelegate_def)

lemma ui_action_run_fields:
  "NSApp (ui_action_run a win w) = NSApp w"
  "ops (ui_action_run a win w) = ops w"
  "sys (ui_action_run a win w) = sys w"
  "type_nsobject (ui_action_run a win w) = type_nsobject w"
  "ui_owns_controller (ui_action_run a win w) = ui_owns_controller w"
  "main_queue (ui_action_run a win w) = main_queue w"
  "received (ui_action_run a win w) = received w"
  "faults (ui_action_run a win w) = faults w"
  "messages (ui_action_run a win w) = messages w"
  "(the_delegate (ui_action_run a win w) = None) = (the_delegate w = None)"
  by (cases a; simp add: Let_def setWindowFullscreen_def to_moduleDelegate_fields)+

lemma ui_run_fields:
  "NSApp (ui_run blk w) = NSApp w"
  "ops (ui_run blk w) = ops w"
  "sys (ui_run blk w) = sys w"
  "type_nsobject (ui_run blk w) = type_nsobject w"
  "ui_owns_controller (ui_run blk w) = ui_owns_controller w"
  "main_queue (ui_run blk w) = main_queue w"
  "received (ui_run blk w) = received w"
  "faults (ui_run blk w) = faults w"
  "messages (ui_run blk w) = messages w"
  "(the_delegate (ui_run blk w) = None) = (the_delegate w = None)"
  by (simp_all add: ui_run_def ui_action_run_fields split: option.split)

lemma fold_ui_run_fields:
  "NSApp (fold ui_run q w) = NSApp w"
  "ops (fold ui_run q w) = ops w"
  "sys (fold ui_run q w) = sys w"
  "type_nsobject (fold ui_run q w) = type_nsobject w"
  "ui_owns_controller (fold ui_run q w) = ui_owns_controller w"
  "main_queue (fold ui_run q w) = main_queue w"
  "received (fold ui_run q w) = received w"
  "faults (fold ui_run q w) = faults w"
  "messages (fold ui_run q w) = messages w"
  "(the_delegate (fold ui_run q w) = None) = (the_delegate w = None)"
  by (induction q arbitrary: w; simp add: ui_run_fields)+

lemma run_main_queue_fields:
  "NSApp (run_main_queue w) = NSApp w"
  "ops (run_main_queue w) = ops w"
  "sys (run_main_queue w) = sys w"
  "type_nsobject (run_main_queue w) = type_nsobject w"
  "ui_owns_controller (run_main_queue w) = ui_owns_controller w"
  "main_queue (run_main_queue w) = []"
  "received (run_main_queue w) = received w"
  "faults (run_main_queue w) = faults w"
  "messages (run_main_queue w) = messages w"
  "(the_delegate (run_main_queue w) = None) = (the_delegate w = None)"
  by (simp_all add: run_main_queue_def fold_ui_run_fields)

text \<open>A block leaves the controller where it is, with the scale factor it has.\<close>

lemma ui_action_run_controller:
  "the_controller w = Some win \<Longrightarrow>
   \<exists>win'. the_controller (ui_action_run a win w) = Some win'
          \<and> backingScaleFactor win' = backingScaleFactor win"
  by (cases a)
    (simp_all add: Let_def setWindowFullscreen_def to_moduleDelegate_fields
      showWindowWithConfig_def setContentSize_def setWindowDecorated_def toggleFullScreen_def)

lemma ui_run_controller:
  "the_controller w = Some win \<Longrightarrow>
   \<exists>win'. the_controller (ui_run blk w) = Some win'
          \<and> backingScaleFactor win' = backingScaleFactor win"
  using ui_action_run_controller [of w win "snd blk"]
  by (simp add: ui_run_def)

lemma ui_run_no_controller:
  "the_controller w = None \<Longrightarrow> ui_run blk w = w"
  by (simp add: ui_run_def)

lemma fold_ui_run_controller:
  "the_controller w = Some win \<Longrightarrow>
   \<exists>win'. the_controller (fold ui_run q w) = Some win'
          \<and> backingScaleFactor win' = backingScaleFactor win"
proof (induction q arbitrary: w win)
  case Nil
  then show ?case by simp
next
  case (Cons blk q)
  from ui_run_controller [OF Cons.prems, of blk]
  obtain win1 where 1: "the_controller (ui_run blk w) = Some win1"
    and 2: "backingScaleFactor win1 = backingScaleFactor win"
    by blast
  from Cons.IH [OF 1] 2 show ?case by simp
qed

lemma run_main_queue_controller:
  "the_controller w = Some win \<Longrightarrow>
   \<exists>win'. the_controller (run_main_queue w) = Some win'
          \<and> backingScaleFactor win' = backingScaleFactor win"
  using fold_ui_run_controller [of "w\<lparr>main_queue := []\<rparr>" win "main_queue w"]
  by (simp add: run_main_queue_def)

subsection \<open>Opening the module\<close>

text \<open>
  C8 (as stated): when an application object exists, \<open>Open\<close> returns success with the
  operations installed. It does not when memory runs out: here the application object
  exists and the allocation of the module's \<open>sys\<close> fails; \<open>Open\<close> returns
  \<open>VLC_ENOMEM\<close> and installs nothing.
\<close>

theorem Open_out_of_memory:
  "NSApp (vout0 True) = True
   \<and> fst (Open (open_env0 False) (vout0 True)) = VLC_ENOMEM
   \<and> ops (snd (Open (open_env0 False) (vout0 True))) = False"
  by (simp add: Open_def Let_def vout0_def open_env0_def)

text \<open>
  C8 (amended): without an application object, \<open>Open\<close> returns the generic failure
  code and only logs: no delegate and no window controller is made, and the operations
  and \<open>sys\<close> are as before. With an application object, when the allocations of
  \<open>sys\<close>, of the delegate, of the controller and of the view all succeed, \<open>Open\<close>
  returns success with the operations installed, \<open>sys\<close> holding the delegate and the
  controller; when one of them fails, \<open>Open\<close> returns \<open>VLC_ENOMEM\<close> and the
  operations and \<open>sys\<close> are as before.
\<close>

theorem Open_outcomes:
  "(\<not> NSApp w \<longrightarrow>
      Open env w =
        (VLC_EGENERIC,
         w\<lparr>messages := messages w
              @ [Info ''using the macOS new video output window module'',
                 Err ''cannot create video output window without NSApplication'']\<rparr>))
   \<and> (NSApp w \<and> calloc_ok env \<and> delegate_ok env \<and> controller_ok env \<and> view_ok env \<longrightarrow>
        fst (Open env w) = VLC_SUCCESS
      \<and> ops (snd (Open env w))
      \<and> sys (snd (Open env w)) = Some \<lparr>windowController = True, delegate = True\<rparr>
      \<and> the_delegate (snd (Open env w)) \<noteq> None
      \<and> the_controller (snd (Open env w)) \<noteq> None)
   \<and> (NSApp w \<and> \<not> (calloc_ok env \<and> delegate_ok env \<and> controller_ok env \<and> view_ok env) \<longrightarrow>
        fst (Open env w) = VLC_ENOMEM
      \<and> ops (snd (Open env w)) = ops w
      \<and> sys (snd (Open env w)) = sys w)"
  by (auto simp: Open_def Let_def initWithModuleDelegate_def setViewObject_def
      run_main_queue_fields initWithVLCVoutWindow_def split: option.splits)

theorem Open_outcomes_witness:
  "Open (open_env0 True) (vout0 False) =
     (VLC_EGENERIC,
      (vout0 False)\<lparr>messages :=
         [Info ''using the macOS new video output window module'',
          Err ''cannot create video output window without NSApplication'']\<rparr>)
   \<and> the_delegate (snd (Open (open_env0 True) (vout0 False))) = None
   \<and> the_controller (snd (Open (open_env0 True) (vout0 False))) = None
   \<and> ops (snd (Open (open_env0 True) (vout0 False))) = False
   \<and> fst (Open (open_env0 True) (vout0 True)) = VLC_SUCCESS
   \<and> ops (snd (Open (open_env0 True) (vout0 True))) = True
   \<and> fst (Open (open_env0 False) (vout0 True)) = VLC_ENOMEM
   \<and> ops (snd (Open (open_env0 False) (vout0 True))) = False"
  using Open_outcomes [of "vout0 False" "open_env0 True"]
    Open_outcomes [of "vout0 True" "open_env0 True"]
    Open_outcomes [of "vout0 True" "open_env0 False"]
  by (simp add: vout0_def open_env0_def)

subsection \<open>Enabling the window\<close>

text \<open>
  C9: for a module that is open (its \<open>sys\<close> holds the controller), \<open>WindowEnable\<close>
  returns success, and when it returns the block has run on the main queue, after all
  blocks queued before it: the queue is empty, the content size is the size of the
  configuration converted from backing units, the decoration of the configuration is
  applied, and the window is shown as the key window.
\<close>

theorem WindowEnable_synchronous:
  assumes "sys w = Some s" and "windowController s" and "the_controller w = Some win"
  shows "\<exists>w' win'. WindowEnable cfg w = Inr (VLC_SUCCESS, w')
           \<and> main_queue w' = []
           \<and> the_controller w' = Some win'
           \<and> contentSize win' = (real (unat (width cfg)) / backingScaleFactor win,
                                   real (unat (height cfg)) / backingScaleFactor win)
           \<and> styleMask win' = (if is_decorated cfg then decoratedWindowStyleMask
                                 else undecoratedWindowStyleMask)
           \<and> isVisible win' \<and> isKeyWindow win'"
proof -
  from run_main_queue_controller [OF assms(3)]
  obtain win1 where 1: "the_controller (run_main_queue w) = Some win1"
    and 2: "backingScaleFactor win1 = backingScaleFactor win"
    by blast
  have "WindowEnable cfg w =
          Inr (VLC_SUCCESS,
               (run_main_queue w)\<lparr>the_controller := Some (showWindowWithConfig cfg win1)\<rparr>)"
    using assms(1,2) 1
    by (simp add: WindowEnable_def dispatch_sync_main_def ui_run_def)
  then show ?thesis
    using 2
    by (simp add: run_main_queue_fields showWindowWithConfig_def Let_def setContentSize_def
        setWindowDecorated_def convertRectFromBacking_def NSMakeRect_def)
qed

theorem WindowEnable_synchronous_witness:
  "\<exists>w' win'. WindowEnable cfg0 opened0 = Inr (VLC_SUCCESS, w')
       \<and> main_queue w' = []
       \<and> the_controller w' = Some win'
       \<and> contentSize win' = (640, 360)
       \<and> styleMask win' = decoratedWindowStyleMask
       \<and> isVisible win' \<and> isKeyWindow win'"
proof -
  let ?win = "\<lparr>styleMask = decoratedWindowStyleMask, contentSize = (0, 0),
               backingScaleFactor = 2, title = ''VLC media player (VLC Video Output)'',
               isVisible = False, isKeyWindow = False, toggles = 0\<rparr>"
  have s: "sys opened0 = Some \<lparr>windowController = True, delegate = True\<rparr>"
    by (simp add: opened0_def Open_def Let_def vout0_def open_env0_def
        initWithModuleDelegate_def setViewObject_def run_main_queue_def
        initWithVLCVoutWindow_def)
  have c: "the_controller opened0 = Some ?win"
    by (simp add: opened0_def Open_def Let_def vout0_def open_env0_def
        initWithModuleDelegate_def setViewObject_def run_main_queue_def
        initWithVLCVoutWindow_def)
  have t: "windowController \<lparr>windowController = True, delegate = True\<rparr>"
    by simp
  show ?thesis
    using WindowEnable_synchronous [OF s t c, of cfg0]
    by (simp add: cfg0_def)
qed

text \<open>The other requests only queue their block: \<open>WindowResize\<close> returns with the
  window as it was.\<close>

lemma WindowResize_asynchronous:
  "sys w = Some s \<Longrightarrow>
   WindowResize wd ht w = Inr (w\<lparr>main_queue := main_queue w @ [(windowController s, DoResize wd ht)]\<rparr>)"
  by (simp add: WindowResize_def dispatch_async_main_def)

subsection \<open>Fullscreen\<close>

text \<open>The two fullscreen requests of the core only queue a block for the main thread.\<close>

lemma fullscreen_requests_queue:
  "sys w = Some s \<Longrightarrow>
     WindowSetFullscreen w =
       Inr (w\<lparr>main_queue := main_queue w @ [(windowController s, DoSetFullscreen True)]\<rparr>)
   \<and> WindowUnsetFullscreen w =
       Inr (w\<lparr>main_queue := main_queue w @ [(windowController s, DoSetFullscreen False)]\<rparr>)"
  by (simp add: WindowSetFullscreen_def WindowUnsetFullscreen_def dispatch_async_main_def)

text \<open>
  C2: take a fullscreen request (set or unset) whose block runs while the controller
  and the delegate are there. When the state asked for is the state of the window, the
  block only queues the report of that state for the core (fullscreen when fullscreen,
  windowed when windowed) and the window is untouched: no toggle. When they differ, the
  block asks the platform for one toggle and queues no report. The report then comes
  when the platform tells the controller that the transition has completed.
\<close>

theorem setWindowFullscreen_reconciles:
  assumes "the_controller w = Some win" and "the_delegate w = Some d"
  shows "(fullscreen = isWindowFullscreen win \<longrightarrow>
            ui_run (True, DoSetFullscreen fullscreen) w =
              w\<lparr>the_delegate :=
                   Some (d\<lparr>eventQueue := eventQueue d
                            @ [if fullscreen then EvFullscreen else EvWindowed]\<rparr>)\<rparr>)
       \<and> (fullscreen \<noteq> isWindowFullscreen win \<longrightarrow>
            ui_run (True, DoSetFullscreen fullscreen) w =
              w\<lparr>the_controller := Some (win\<lparr>toggles := Suc (toggles win)\<rparr>)\<rparr>)
       \<and> the_delegate (ui_step FullScreenEntered w) =
            Some (d\<lparr>eventQueue := eventQueue d @ [EvFullscreen]\<rparr>)
       \<and> the_delegate (ui_step FullScreenExited w) =
            Some (d\<lparr>eventQueue := eventQueue d @ [EvWindowed]\<rparr>)
       \<and> run_event_block True EvFullscreen w = w\<lparr>received := received w @ [ReportFullscreen]\<rparr>
       \<and> run_event_block True EvWindowed w = w\<lparr>received := received w @ [ReportWindowed]\<rparr>"
  using assms
  by (simp add: ui_run_def setWindowFullscreen_def to_moduleDelegate_def reportFullscreen_def
      reportWindowed_def enqueueEventBlock_def toggleFullScreen_def ui_step_def
      windowDidEnterFullScreen_def windowDidExitFullScreen_def vout_window_Report_def)

text \<open>The module after a successful \<open>Open\<close>, for the evaluations below.\<close>

lemma opened0_eq:
  "opened0 =
     \<lparr>NSApp = True, ops = True,
      sys = Some \<lparr>windowController = True, delegate = True\<rparr>,
      type_nsobject = True,
      the_delegate = Some \<lparr>vlc_vout_window = True, eventQueue = []\<rparr>,
      the_controller =
        Some \<lparr>styleMask = decoratedWindowStyleMask, contentSize = (0, 0),
               backingScaleFactor = 2, title = ''VLC media player (VLC Video Output)'',
               isVisible = False, isKeyWindow = False, toggles = 0\<rparr>,
      ui_owns_controller = True, main_queue = [], received = [], faults = [],
      messages = [Info ''using the macOS new video output window module'']\<rparr>"
  by (simp add: opened0_def Open_def Let_def vout0_def open_env0_def
      initWithModuleDelegate_def setViewObject_def run_main_queue_def
      initWithVLCVoutWindow_def)

lemma decorated_not_fullscreen:
  "isWindowFullscreen (win\<lparr>styleMask := decoratedWindowStyleMask\<rparr>) = False"
  by (simp add: isWindowFullscreen_def decoratedWindowStyleMask_def
      NSWindowStyleMaskTitled_def NSWindowStyleMaskClosable_def
      NSWindowStyleMaskMiniaturizable_def NSWindowStyleMaskResizable_def
      NSFullScreenWindowMask_def)

theorem setWindowFullscreen_reconciles_witness:
  "ui_run (True, DoSetFullscreen False) opened0 =
     opened0\<lparr>the_delegate := Some \<lparr>vlc_vout_window = True, eventQueue = [EvWindowed]\<rparr>\<rparr>
   \<and> (\<exists>win. the_controller (ui_run (True, DoSetFullscreen True) opened0) = Some win
            \<and> toggles win = 1)
   \<and> the_delegate (ui_run (True, DoSetFullscreen True) opened0) = the_delegate opened0
   \<and> the_delegate (ui_step FullScreenEntered opened0) =
        Some \<lparr>vlc_vout_window = True, eventQueue = [EvFullscreen]\<rparr>"
proof -
  let ?win = "\<lparr>styleMask = decoratedWindowStyleMask, contentSize = (0, 0),
               backingScaleFactor = 2, title = ''VLC media player (VLC Video Output)'',
               isVisible = False, isKeyWindow = False, toggles = 0\<rparr>"
  let ?d = "\<lparr>vlc_vout_window = True, eventQueue = []\<rparr>"
  have c: "the_controller opened0 = Some ?win"
    by (simp add: opened0_eq)
  have d: "the_delegate opened0 = Some ?d"
    by (simp add: opened0_eq)
  have f: "isWindowFullscreen ?win = False"
    using decorated_not_fullscreen [of ?win] by simp
  show ?thesis
    using setWindowFullscreen_reconciles [OF c d, of False]
      setWindowFullscreen_reconciles [OF c d, of True] f
    by simp
qed

subsection \<open>Sizes\<close>

lemma unsigned_of_CGFloat_unat:
  "unsigned_of_CGFloat (unsigned (x :: 32 word)) = Some x"
proof -
  have e: "(unsigned x :: real) = of_int (uint x)"
    by simp
  have f: "\<lfloor>unsigned x :: real\<rfloor> = uint x"
    by (simp only: e floor_of_int)
  have g: "0 \<le> (unsigned x :: real)"
    by (simp only: e of_int_0_le_iff unsigned_greater_eq)
  have "uint x < 2 ^ 32"
    using unsigned_less [of x] by simp
  then show ?thesis
    by (simp add: unsigned_of_CGFloat_def Let_def f g)
qed

lemma release_delegate_received:
  "received (release_delegate w) = received w"
  by (simp add: release_delegate_def split: option.split)

text \<open>
  C6: the module is handed sizes in backing units and reports sizes in backing units,
  and the two conversions undo each other. Let the scale factor of the window be a
  whole number \<open>n\<close> and let the width and the height asked for be multiples of it. The
  resize block sets the content size to the whole numbers of points \<open>width div n\<close> and
  \<open>height div n\<close>; when the view then reports its size (no earlier report pending), the
  core is told exactly the width and the height that were asked for.
\<close>

theorem resize_report_roundtrip:
  assumes "the_controller w = Some win" and "the_delegate w = Some d"
    and "vlc_vout_window d" and "eventQueue d = []"
    and "backingScaleFactor win = real n" and "0 < n"
    and "n dvd unat wd" and "n dvd unat ht"
  shows "\<exists>win'. the_controller (ui_run (True, DoResize wd ht) w) = Some win'
           \<and> contentSize win' = (real (unat wd div n), real (unat ht div n))
           \<and> received (run_eventQueue
                 (resizeSubviewsWithOldSize win' (ui_run (True, DoResize wd ht) w)))
               = received w @ [ReportSize wd ht]"
proof -
  let ?win' = "win\<lparr>contentSize := (real (unat wd) / real n, real (unat ht) / real n)\<rparr>"
  have run: "ui_run (True, DoResize wd ht) w = w\<lparr>the_controller := Some ?win'\<rparr>"
    using assms(1,5)
    by (simp add: ui_run_def Let_def setContentSize_def convertRectFromBacking_def
        NSMakeRect_def)
  have size: "contentSize ?win' = (real (unat wd div n), real (unat ht div n))"
    using assms(7,8) by (simp add: real_of_nat_div)
  have to_backing: "convertRectToBacking ?win' (bounds ?win') = (real (unat wd), real (unat ht))"
    using assms(5,6) by (simp add: convertRectToBacking_def bounds_def)
  have "received (run_eventQueue (resizeSubviewsWithOldSize ?win' (w\<lparr>the_controller := Some ?win'\<rparr>)))
          = received w @ [ReportSize wd ht]"
    using assms(2,3,4) to_backing
    by (simp add: resizeSubviewsWithOldSize_def reportBackingSize_def Let_def
        to_moduleDelegate_def reportSizeChanged_def enqueueEventBlock_def
        run_eventQueue_def unsigned_of_CGFloat_unat vout_window_Report_def
        release_delegate_received)
  with run size show ?thesis
    by simp
qed

theorem resize_report_roundtrip_witness:
  "\<exists>win'. the_controller (ui_run (True, DoResize 1280 720) opened0) = Some win'
      \<and> contentSize win' = (640, 360)
      \<and> received (run_eventQueue
            (resizeSubviewsWithOldSize win' (ui_run (True, DoResize 1280 720) opened0)))
          = [ReportSize 1280 720]"
proof -
  let ?win = "\<lparr>styleMask = decoratedWindowStyleMask, contentSize = (0, 0),
               backingScaleFactor = 2, title = ''VLC media player (VLC Video Output)'',
               isVisible = False, isKeyWindow = False, toggles = 0\<rparr>"
  let ?d = "\<lparr>vlc_vout_window = True, eventQueue = []\<rparr>"
  have c: "the_controller opened0 = Some ?win"
    by (simp add: opened0_eq)
  have d: "the_delegate opened0 = Some ?d"
    by (simp add: opened0_eq)
  have v: "vlc_vout_window ?d" and q: "eventQueue ?d = []"
    by simp_all
  have k: "backingScaleFactor ?win = real 2" and p: "0 < (2::nat)"
    by simp_all
  have a: "2 dvd unat (1280 :: 32 word)" and b: "2 dvd unat (720 :: 32 word)"
    by simp_all
  have r: "received opened0 = []"
    by (simp add: opened0_eq)
  show ?thesis
    using resize_report_roundtrip [OF c d v q k p a b] r
    by simp
qed

subsection \<open>After the module is closed\<close>

lemma run_eventQueue_nil:
  "the_delegate w = None \<Longrightarrow> run_eventQueue w = w"
  by (simp add: run_eventQueue_def)

lemma ui_event_run_no_delegate:
  assumes "the_delegate w = None"
  shows "the_delegate (ui_event_run ev win w) = None
       \<and> received (ui_event_run ev win w) = received w
       \<and> faults (ui_event_run ev win w) = faults w"
  using assms
  by (cases ev)
    (simp_all add: Let_def windowShouldClose_def windowDidEnterFullScreen_def
      windowDidExitFullScreen_def resizeSubviewsWithOldSize_def
      viewDidChangeBackingProperties_def reportBackingSize_def to_moduleDelegate_def
      run_main_queue_fields run_eventQueue_nil)

lemma ui_step_no_delegate:
  assumes "the_delegate w = None"
  shows "the_delegate (ui_step ev w) = None
       \<and> received (ui_step ev w) = received w
       \<and> faults (ui_step ev w) = faults w"
  using assms ui_event_run_no_delegate [OF assms]
  by (simp add: ui_step_def run_main_queue_fields run_eventQueue_nil split: option.split)

lemma fold_ui_step_no_delegate:
  "the_delegate w = None \<Longrightarrow>
     the_delegate (fold ui_step evs w) = None
   \<and> received (fold ui_step evs w) = received w
   \<and> faults (fold ui_step evs w) = faults w"
proof (induction evs arbitrary: w)
  case Nil
  then show ?case by simp
next
  case (Cons ev evs)
  from ui_step_no_delegate [OF Cons.prems, of ev]
  have 1: "the_delegate (ui_step ev w) = None"
    and 2: "received (ui_step ev w) = received w"
    and 3: "faults (ui_step ev w) = faults w"
    by simp_all
  from Cons.IH [OF 1] 2 3 show ?case by simp
qed

text \<open>\<open>Close\<close> drops both references of \<open>sys\<close>; the delegate goes with it when no
  report is pending in its queue, and from then on nothing reaches the core.\<close>

lemma Close_sys:
  "Close w = Inr w' \<Longrightarrow> sys w' = Some \<lparr>windowController = False, delegate = False\<rparr>"
  by (auto simp: Close_def Let_def release_delegate_def release_controller_def
      split: option.splits if_splits)

lemma Close_releases_delegate:
  assumes "sys w = Some s" and "the_delegate w = Some d" and "eventQueue d = []"
  shows "\<exists>w'. Close w = Inr w' \<and> the_delegate w' = None \<and> received w' = received w
           \<and> faults w' = faults w"
  using assms
  by (simp add: Close_def Let_def release_delegate_def release_controller_def
      sys_holds_delegate_def sys_holds_controller_def)

lemma no_reports_after_quiet_Close:
  assumes "sys w = Some s" and "the_delegate w = Some d" and "eventQueue d = []"
  shows "\<exists>w'. Close w = Inr w'
           \<and> received (fold ui_step evs w') = received w
           \<and> faults (fold ui_step evs w') = faults w
           \<and> to_moduleDelegate msg (fold ui_step evs w') = fold ui_step evs w'"
proof -
  from Close_releases_delegate [OF assms]
  obtain w' where c: "Close w = Inr w'" and d: "the_delegate w' = None"
    and r: "received w' = received w" and f: "faults w' = faults w"
    by blast
  from fold_ui_step_no_delegate [OF d, of evs] c r f show ?thesis
    by (simp add: to_moduleDelegate_nil)
qed

text \<open>
  C7: once the module is closed, no later report reaches the core. The delegate is
  there to be invalidated as soon as the module is gone, as the comment on its
  interface says; but its pointer to the core's window is cleared only in \<open>dealloc\<close>,
  every block in its queue holds the delegate, and no block tests the pointer. So when
  a report is pending as the module closes, the delegate stays: here the view has been
  resized and the report of the size has not yet run when \<open>Close\<close> drops the two
  references. The delegate is still there after \<open>Close\<close>; the window then reports that
  it is fullscreen and that it was closed, the queue runs, and the core of the closed
  module is told all three.
\<close>

theorem reports_delivered_after_Close:
  "the_delegate resized0 =
     Some \<lparr>vlc_vout_window = True, eventQueue = [EvSizeChanged (1280, 720)]\<rparr>
   \<and> Close resized0 = Inr closed0
   \<and> sys closed0 = Some \<lparr>windowController = False, delegate = False\<rparr>
   \<and> the_delegate closed0 =
       Some \<lparr>vlc_vout_window = True, eventQueue = [EvSizeChanged (1280, 720)]\<rparr>
   \<and> received closed0 = []
   \<and> received (run_eventQueue closed0) = [ReportSize 1280 720]
   \<and> received (fold ui_step [FullScreenEntered, UserClosesWindow, EventQueueRuns] closed0)
       = [ReportSize 1280 720, ReportFullscreen, ReportClose]"
proof -
  let ?win = "\<lparr>styleMask = decoratedWindowStyleMask, contentSize = (640, 360),
               backingScaleFactor = 2, title = ''VLC media player (VLC Video Output)'',
               isVisible = False, isKeyWindow = False, toggles = 0\<rparr>"
  let ?d = "\<lparr>vlc_vout_window = True, eventQueue = [EvSizeChanged (1280, 720)]\<rparr>"
  have r: "resized0 = opened0\<lparr>the_delegate := Some ?d, the_controller := Some ?win\<rparr>"
    by (simp add: resized0_def opened0_eq ui_step_def Let_def setContentSize_def
        resizeSubviewsWithOldSize_def reportBackingSize_def convertRectToBacking_def
        bounds_def to_moduleDelegate_def reportSizeChanged_def enqueueEventBlock_def)
  have c: "Close resized0 =
             Inr (resized0\<lparr>sys := Some \<lparr>windowController = False, delegate = False\<rparr>\<rparr>)"
    by (simp add: r opened0_eq Close_def Let_def release_delegate_def release_controller_def
        sys_holds_delegate_def sys_holds_controller_def)
  have c0: "closed0 = resized0\<lparr>sys := Some \<lparr>windowController = False, delegate = False\<rparr>\<rparr>"
    by (simp add: closed0_def c)
  have n1: "unsigned_of_CGFloat 1280 = Some 1280" and n2: "unsigned_of_CGFloat 720 = Some 720"
    by (simp_all add: unsigned_of_CGFloat_def Let_def)
  have q: "received (run_eventQueue closed0) = [ReportSize 1280 720]"
    by (simp add: c0 r opened0_eq run_eventQueue_def n1 n2 vout_window_Report_def
        release_delegate_received)
  have l: "received (fold ui_step [FullScreenEntered, UserClosesWindow, EventQueueRuns] closed0)
             = [ReportSize 1280 720, ReportFullscreen, ReportClose]"
    by (simp add: c0 r opened0_eq ui_step_def Let_def windowDidEnterFullScreen_def
        windowShouldClose_def to_moduleDelegate_def reportFullscreen_def reportClose_def
        enqueueEventBlock_def run_eventQueue_def n1 n2 vout_window_Report_def
        release_delegate_received)
  have a1: "the_delegate resized0 = Some ?d"
    by (simp add: r)
  have a2: "Close resized0 = Inr closed0"
    by (simp add: c c0)
  have a3: "sys closed0 = Some \<lparr>windowController = False, delegate = False\<rparr>"
    by (simp add: c0)
  have a4: "the_delegate closed0 = Some ?d"
    by (simp add: c0 r)
  have a5: "received closed0 = []"
    by (simp add: c0 r opened0_eq)
  from a1 a2 a3 a4 a5 q l show ?thesis
    by (intro conjI)
qed

end
